theory Spec2Isabelle
  imports Complex_Main "HOL-Library.AList"
begin

section \<open>JavaScript values\<close>

text \<open>
  The node is written in TypeScript, and the parts of it that decide the payment gate work
  on values typed \<open>any\<close>: the parsed instruction of a transaction, the JSON body of a call,
  the handler's result. They are modelled by one datatype of JavaScript values. Numbers
  are exact rationals: the rounding of IEEE doubles, \<open>NaN\<close> and the infinities are outside
  the model (where the source tests \<open>isNaN\<close>, the model has an \<open>option\<close>).
\<close>

datatype jsval =
    JUndefined
  | JNull
  | JBool bool
  | JNum rat
  | JStr string
  | JArr "jsval list"
  | JObj "(string \<times> jsval) list"

text \<open>\<open>!v\<close> is \<open>\<not> truthy v\<close>.\<close>

fun truthy :: "jsval \<Rightarrow> bool" where
  "truthy JUndefined = False"
| "truthy JNull = False"
| "truthy (JBool b) = b"
| "truthy (JNum r) = (r \<noteq> 0)"
| "truthy (JStr s) = (s \<noteq> [])"
| "truthy (JArr xs) = True"
| "truthy (JObj kvs) = True"

text \<open>\<open>typeof v\<close>, for the two results the source compares with.\<close>

fun typeof_string :: "jsval \<Rightarrow> bool" where
  "typeof_string (JStr s) = True"
| "typeof_string v = False"

fun typeof_object :: "jsval \<Rightarrow> bool" where
  "typeof_object JNull = True"
| "typeof_object (JArr xs) = True"
| "typeof_object (JObj kvs) = True"
| "typeof_object v = False"

fun nullish :: "jsval \<Rightarrow> bool" where
  "nullish JUndefined = True"
| "nullish JNull = True"
| "nullish v = False"

text \<open>
  \<open>js_get v k\<close> is the optional access \<open>v?.k\<close>: \<open>undefined\<close> on \<open>undefined\<close> and \<open>null\<close>,
  the own property of an object, \<open>undefined\<close> where there is none. The plain access \<open>v.k\<close>
  agrees with it on every value but \<open>undefined\<close> and \<open>null\<close>, where it throws a TypeError;
  the model tests \<open>nullish\<close> first wherever the source writes the plain access.
\<close>

fun js_get :: "jsval \<Rightarrow> string \<Rightarrow> jsval" where
  "js_get (JObj kvs) k = (case map_of kvs k of Some v \<Rightarrow> v | None \<Rightarrow> JUndefined)"
| "js_get v k = JUndefined"

text \<open>
  A thrown value: \<open>Thrown (Some m)\<close> is an \<open>Error\<close> with message \<open>m\<close>, \<open>Thrown None\<close> any
  value that is not an \<open>Error\<close>. \<open>error_message d t\<close> is
  \<open>error instanceof Error ? error.message : d\<close>.
\<close>

datatype thrown = Thrown "string option"

fun error_message :: "string \<Rightarrow> thrown \<Rightarrow> string" where
  "error_message d (Thrown (Some m)) = m"
| "error_message d (Thrown None) = d"

text \<open>
  What the source takes from the JavaScript engine and from the Solana library:
  \<open>Number(v)\<close> (\<open>None\<close> is \<open>NaN\<close>), \<open>new PublicKey(v)\<close> (which throws on a value that is no
  key, and whose result is identified with its base58 text), and the message of the
  TypeError the engine throws when a property of \<open>undefined\<close> or \<open>null\<close> is read.
\<close>

record runtime =
  toNumber :: "jsval \<Rightarrow> rat option"
  newPublicKey :: "jsval \<Rightarrow> thrown + string"
  typeErrorMessage :: string

section \<open>On-chain payment verification (middleware.ts)\<close>

text \<open>
  An instruction of a parsed transaction is either partially decoded (no \<open>parsed\<close> key)
  or parsed; both carry the base58 text of their program id.
\<close>

datatype instruction =
    PartiallyDecoded string
  | ParsedInstruction string jsval

record ParsedTransaction =
  meta :: jsval
  instructions :: "instruction list"

text \<open>
  The chain-query connection. Each query either throws or returns; a transaction that is
  not on the chain is \<open>null\<close> (\<open>None\<close>). \<open>getParsedAccountInfo\<close> returns the \<open>value\<close>
  field of the RPC response.
\<close>

record Connection =
  getParsedTransaction :: "string \<Rightarrow> thrown + ParsedTransaction option"
  getParsedAccountInfo :: "string \<Rightarrow> thrown + jsval"

datatype chain_query =
    GetParsedTransaction string
  | GetParsedAccountInfo string

text \<open>The two shapes \<open>verifyPayment\<close> returns: \<open>{valid: false, error}\<close> and
  \<open>{valid: true, amount, from, signature}\<close>.\<close>

datatype PaymentResult =
    Invalid string
  | Valid rat jsval string

definition TOKEN_PROGRAM_ID :: string where
  "TOKEN_PROGRAM_ID = ''TokenkegQfeZyiNwAJbNbGKPFXCWuBvf9Ss623VQ5DA''"

text \<open>The filter of step 3 keeps the parsed instructions of the token program; the
  model keeps their \<open>parsed\<close> values, all that is read of them afterwards.\<close>

fun token_instruction :: "instruction \<Rightarrow> jsval option" where
  "token_instruction (PartiallyDecoded pid) = None"
| "token_instruction (ParsedInstruction pid parsed) =
     (if pid = TOKEN_PROGRAM_ID then Some parsed else None)"

definition is_transfer :: "jsval \<Rightarrow> bool" where
  "is_transfer parsed =
     (js_get parsed ''type'' = JStr ''transfer''
      \<or> js_get parsed ''type'' = JStr ''transferChecked'')"

definition find_transfer :: "instruction list \<Rightarrow> jsval option" where
  "find_transfer ixs = List.find is_transfer (List.map_filter token_instruction ixs)"

definition verification_failed :: "thrown \<Rightarrow> PaymentResult" where
  "verification_failed t =
     Invalid (''On-chain verification failed: '' @ error_message ''Unknown error'' t)"

text \<open>Steps 5 and 6 of \<open>verifySolanaOnChainPayment\<close>, once the destination account has
  been fetched: the owner of the destination and the amount.\<close>

definition destinationOwner :: "jsval \<Rightarrow> jsval" where
  "destinationOwner data = js_get (js_get (js_get data ''parsed'') ''info'') ''owner''"

definition rawAmount :: "jsval \<Rightarrow> jsval" where
  "rawAmount info =
     (if truthy (js_get info ''amount'') then js_get info ''amount''
      else js_get (js_get info ''tokenAmount'') ''amount'')"

definition check_destination ::
  "runtime \<Rightarrow> string \<Rightarrow> string \<Rightarrow> jsval \<Rightarrow> jsval \<Rightarrow> PaymentResult" where
  "check_destination rt transactionSignature providerPubkeyBase58 info accountValue =
     (let authority = js_get info ''authority'';
          data = js_get accountValue ''data''
      in if \<not> truthy data then Invalid ''Destination token account not found.''
         else
           let destinationOwnerPubkey = destinationOwner data
           in if \<not> truthy destinationOwnerPubkey
              then Invalid ''Could not determine the owner of the destination token account.''
              else if destinationOwnerPubkey \<noteq> JStr providerPubkeyBase58
              then Invalid ''Payment was sent to an incorrect account.''
              else
                case toNumber rt (rawAmount info) of
                  None \<Rightarrow> Invalid ''Invalid payment amount.''
                | Some n \<Rightarrow>
                    let amountPaid = n / 1000000
                    in if amountPaid < 0 then Invalid ''Invalid payment amount.''
                       else Valid amountPaid authority transactionSignature)"

text \<open>Step 4 and the query of step 5: the transfer instruction's \<open>info\<close> is destructured
  (a TypeError when it is \<open>undefined\<close> or \<open>null\<close>), the destination is made a public key
  and its account is fetched.\<close>

definition check_transfer ::
  "runtime \<Rightarrow> string \<Rightarrow> string \<Rightarrow> Connection \<Rightarrow> jsval
     \<Rightarrow> chain_query list \<times> PaymentResult" where
  "check_transfer rt transactionSignature providerPubkeyBase58 connection parsed =
     (let info = js_get parsed ''info''
      in if nullish info
         then ([], verification_failed (Thrown (Some (typeErrorMessage rt))))
         else
           case newPublicKey rt (js_get info ''destination'') of
             Inl t \<Rightarrow> ([], verification_failed t)
           | Inr key \<Rightarrow>
               ([GetParsedAccountInfo key],
                case getParsedAccountInfo connection key of
                  Inl t \<Rightarrow> verification_failed t
                | Inr accountValue \<Rightarrow>
                    check_destination rt transactionSignature providerPubkeyBase58
                      info accountValue))"

definition verifySolanaOnChainPayment ::
  "runtime \<Rightarrow> string \<Rightarrow> string \<Rightarrow> Connection option
     \<Rightarrow> chain_query list \<times> PaymentResult" where
  "verifySolanaOnChainPayment rt transactionSignature providerPubkeyBase58 connection =
     (case connection of
        None \<Rightarrow> ([], Invalid ''Solana connection not established.'')
      | Some conn \<Rightarrow>
          if transactionSignature = []
          then ([], Invalid ''Invalid transaction signature: empty or not a string.'')
          else
            case getParsedTransaction conn transactionSignature of
              Inl t \<Rightarrow> ([GetParsedTransaction transactionSignature], verification_failed t)
            | Inr None \<Rightarrow>
                ([GetParsedTransaction transactionSignature], Invalid ''Transaction not found.'')
            | Inr (Some tx) \<Rightarrow>
                if truthy (meta tx) \<and> truthy (js_get (meta tx) ''err'')
                then ([GetParsedTransaction transactionSignature],
                      Invalid ''Transaction failed on-chain.'')
                else
                  case find_transfer (instructions tx) of
                    None \<Rightarrow>
                      ([GetParsedTransaction transactionSignature],
                       Invalid ''No valid SPL Token transfer instruction found.'')
                  | Some parsed \<Rightarrow>
                      (let (qs, r) = check_transfer rt transactionSignature
                                       providerPubkeyBase58 conn parsed
                       in (GetParsedTransaction transactionSignature # qs, r)))"

definition verifyPayment ::
  "runtime \<Rightarrow> string \<Rightarrow> string \<Rightarrow> string \<Rightarrow> Connection option
     \<Rightarrow> chain_query list \<times> PaymentResult" where
  "verifyPayment rt token chain providerPubkeyBase58 solanaConnection =
     (if chain = ''solana''
      then verifySolanaOnChainPayment rt token providerPubkeyBase58 solanaConnection
      else ([], Invalid ''Unsupported chain for payment verification.''))"

section \<open>The payment gate (middleware.ts)\<close>

text \<open>
  What the gate reads of an inbound request: its path, the two payment headers (\<open>None\<close>
  when the header is absent) and, for the dispatcher, its JSON body. The payment the gate
  attaches to the request is a record; \<open>signature\<close> is the header as it came, so
  \<open>undefined\<close> when there was none.
\<close>

record Request =
  path :: string
  x_payment :: "string option"
  x_payment_chain :: "string option"
  body :: jsval

record payment =
  amount :: rat
  from_addr :: jsval
  signature :: jsval
  chain :: string

datatype Response = Response nat jsval

text \<open>The gate either calls \<open>next()\<close>, with the payment it attached if any, or answers
  the request itself.\<close>

datatype gate = Next "payment option" | Reply Response

definition header_value :: "string option \<Rightarrow> jsval" where
  "header_value h = (case h of None \<Rightarrow> JUndefined | Some s \<Rightarrow> JStr s)"

text \<open>\<open>req.headers['x-payment-chain'] || 'solana'\<close>\<close>

definition payment_chain :: "Request \<Rightarrow> string" where
  "payment_chain req =
     (case x_payment_chain req of
        None \<Rightarrow> ''solana''
      | Some c \<Rightarrow> if c = [] then ''solana'' else c)"

text \<open>\<open>paymentMiddleware(wallet, chains)\<close> opens one connection, for Solana, when Solana is
  among the chains; \<open>rpc\<close> is that connection. \<open>verifyPayment\<close> catches what its queries
  throw, so nothing reaches the \<open>catch\<close> of the middleware, which has no branch here.\<close>

definition providersConnection :: "string list \<Rightarrow> Connection \<Rightarrow> Connection option" where
  "providersConnection supportedChains rpc = (if ''solana'' \<in> set supportedChains then Some rpc else None)"

text \<open>\<open>!paymentToken || paymentToken === 'free-api-call'\<close>\<close>

definition free_call :: "jsval \<Rightarrow> bool" where
  "free_call paymentToken = (\<not> truthy paymentToken \<or> paymentToken = JStr ''free-api-call'')"

definition paymentMiddleware ::
  "runtime \<Rightarrow> string \<Rightarrow> string list \<Rightarrow> Connection \<Rightarrow> Request
     \<Rightarrow> chain_query list \<times> gate" where
  "paymentMiddleware rt walletPubkey supportedChains rpc req =
     (if path req = ''/health'' then ([], Next None)
      else
        let paymentToken = header_value (x_payment req);
            chain = payment_chain req
        in if free_call paymentToken
           then ([], Next (Some \<lparr>amount = 0, from_addr = JStr ''unknown'',
                                   signature = paymentToken, chain = chain\<rparr>))
           else if chain \<notin> set supportedChains
           then ([], Reply (Response 400
                   (JObj [(''error'', JStr ''Unsupported chain''),
                          (''supported'', JArr (map JStr supportedChains))])))
           else
             case verifyPayment rt (case x_payment req of Some t \<Rightarrow> t | None \<Rightarrow> [])
                    chain walletPubkey (providersConnection supportedChains rpc) of
               (qs, Invalid e) \<Rightarrow>
                 (qs, Reply (Response 402
                    (JObj [(''error'', JStr ''Invalid payment''), (''message'', JStr e)])))
             | (qs, Valid a f s) \<Rightarrow>
                 (qs, Next (Some \<lparr>amount = a, from_addr = f,
                                    signature = paymentToken, chain = chain\<rparr>)))"

section \<open>The registry client (registry-client.ts)\<close>

text \<open>
  What the node does to the world is recorded as a trace of events, in program order: the
  chain queries of the gate, the requests posted to the registry (the URL and the JSON
  body), the interval timer set and cleared, the handler invoked (with the name it is
  registered under, the parameters and the delay of the timer it races), the write of the
  stats (with the stats written), the response sent, the server listening and closed.
\<close>

record ServerStats =
  uptime :: int
  requestsServed :: nat
  totalEarnings :: rat
  averageLatency :: rat
  errorRate :: rat

datatype event =
    ChainQuery chain_query
  | RegistryPost string jsval
  | SetInterval nat
  | ClearInterval nat
  | HandlerCalled string jsval rat
  | StatsWritten ServerStats
  | Sent Response
  | Listen nat
  | Close

text \<open>
  How a \<open>fetch\<close> to the registry settles: never (the request has no timeout), by throwing
  (the text is the thrown value as a template literal renders it), or with a response, of
  which the source reads \<open>ok\<close> and \<open>text()\<close> (\<open>Inl\<close> when reading the text throws).
\<close>

datatype fetch =
    FetchPending
  | FetchThrows string
  | FetchResponse bool "string + string"

text \<open>How an \<open>async\<close> function settles.\<close>

datatype 'a promise =
    Pending
  | Fulfilled 'a
  | RejectedWith string

record RegistryClient =
  registryUrl :: string
  providerId :: string
  heartbeatInterval :: "nat option"

definition new_RegistryClient :: "string \<Rightarrow> string \<Rightarrow> RegistryClient" where
  "new_RegistryClient url pid =
     \<lparr>registryUrl = url, providerId = pid, heartbeatInterval = None\<rparr>"

text \<open>The health snapshot of a heartbeat, \<open>{latency, requestsServed, errors}\<close>.\<close>

definition health :: "int \<Rightarrow> nat \<Rightarrow> nat \<Rightarrow> (string \<times> jsval) list" where
  "health l r e =
     [(''latency'', JNum (of_int l)),
      (''requestsServed'', JNum (of_nat r)),
      (''errors'', JNum (of_nat e))]"

text \<open>
  \<open>heartbeat(health)\<close> posts \<open>{providerId, ...health, timestamp}\<close>; what the fetch throws
  is caught and logged, so the call settles as the fetch does: \<open>True\<close> when it settles,
  \<open>False\<close> when it never does.
\<close>

definition heartbeat ::
  "RegistryClient \<Rightarrow> (string \<times> jsval) list \<Rightarrow> string \<Rightarrow> fetch \<Rightarrow> event list \<times> bool" where
  "heartbeat c h now f =
     ([RegistryPost (registryUrl c @ ''/heartbeat'')
         (JObj ((''providerId'', JStr (providerId c)) # h @ [(''timestamp'', JStr now)]))],
      f \<noteq> FetchPending)"

text \<open>\<open>startHeartbeat()\<close> sets the interval timer; \<open>heartbeat_tick\<close> is its callback,
  run at every tick.\<close>

definition startHeartbeat :: "RegistryClient \<Rightarrow> RegistryClient \<times> event list" where
  "startHeartbeat c = (c\<lparr>heartbeatInterval := Some 60000\<rparr>, [SetInterval 60000])"

definition heartbeat_tick :: "RegistryClient \<Rightarrow> string \<Rightarrow> fetch \<Rightarrow> event list" where
  "heartbeat_tick c now f = fst (heartbeat c (health 0 0 0) now f)"

definition stopHeartbeat :: "RegistryClient \<Rightarrow> event list" where
  "stopHeartbeat c =
     (case heartbeatInterval c of
        None \<Rightarrow> []
      | Some t \<Rightarrow> [ClearInterval t])"

definition register ::
  "RegistryClient \<Rightarrow> (string \<times> jsval) list \<Rightarrow> fetch
     \<Rightarrow> RegistryClient \<times> event list \<times> unit promise" where
  "register c data f =
     (let post = RegistryPost (registryUrl c @ ''/register'')
                   (JObj ((''providerId'', JStr (providerId c)) # data))
      in case f of
           FetchPending \<Rightarrow> (c, [post], Pending)
         | FetchThrows e \<Rightarrow> (c, [post], RejectedWith (''Failed to register: '' @ e))
         | FetchResponse ok answer \<Rightarrow>
             if \<not> ok
             then (case answer of
                     Inl e \<Rightarrow> (c, [post], RejectedWith (''Failed to register: '' @ e))
                   | Inr t \<Rightarrow>
                       (c, [post],
                        RejectedWith (''Failed to register: ''
                          @ ''RegistryError: '' @ ''Registration failed: '' @ t)))
             else
               let (c', ev) = startHeartbeat c
               in (c', post # ev, Fulfilled ()))"

definition unregister :: "RegistryClient \<Rightarrow> fetch \<Rightarrow> event list \<times> unit promise" where
  "unregister c f =
     (stopHeartbeat c
        @ [RegistryPost (registryUrl c @ ''/unregister'')
             (JObj [(''providerId'', JStr (providerId c))])],
      if f = FetchPending then Pending else Fulfilled ())"

section \<open>The provider server (index.ts)\<close>

text \<open>
  An API handler is a capability of the caller's. The dispatcher races the call
  \<open>handler(params)\<close> against a timer; \<open>h params t\<close> is how that race settles when the timer
  is set to \<open>t\<close> milliseconds: the handler resolves first, the handler rejects (or throws)
  first, or the timer fires first.
\<close>

datatype race =
    HandlerResolved jsval
  | HandlerRejected thrown
  | TimerFired

type_synonym APIHandler = "jsval \<Rightarrow> rat \<Rightarrow> race"

record APIConfig =
  price :: rat
  timeout :: "rat option"
  rateLimit :: "rat option"

record ServerConfig =
  walletPubkey :: string
  port :: nat
  publicUrl :: "string option"
  registry :: string
  chainList :: "string list"
  defaultPrice :: rat
  logging :: bool

text \<open>
  The mutable state \<open>createProviderServer\<close> closes over: the stats object, the two
  counters beside it, the handler map (a JavaScript \<open>Map\<close>, so an association list in
  insertion order), the server instance (\<open>None\<close> until \<open>listen\<close> has returned one; \<open>True\<close>
  once it has been closed) and the registry client.
\<close>

record node =
  stats :: ServerStats
  totalLatency :: int
  errorCount :: nat
  handlers :: "(string \<times> APIHandler \<times> APIConfig) list"
  server :: "bool option"
  registryClient :: RegistryClient

definition createProviderServer :: "ServerConfig \<Rightarrow> node" where
  "createProviderServer cfg =
     \<lparr>stats = \<lparr>uptime = 0, requestsServed = 0, totalEarnings = 0,
               averageLatency = 0, errorRate = 0\<rparr>,
      totalLatency = 0,
      errorCount = 0,
      handlers = [],
      server = None,
      registryClient = new_RegistryClient (registry cfg) (walletPubkey cfg)\<rparr>"

text \<open>\<open>addAPI(name, handler, config?)\<close>: the three fields of the optional partial config.\<close>

definition addAPI ::
  "ServerConfig \<Rightarrow> string \<Rightarrow> APIHandler \<Rightarrow> rat option \<Rightarrow> rat option \<Rightarrow> rat option
     \<Rightarrow> node \<Rightarrow> node" where
  "addAPI cfg name handler config_price config_timeout config_rateLimit n =
     (let apiConfig = \<lparr>price = (case config_price of None \<Rightarrow> defaultPrice cfg | Some p \<Rightarrow> p),
                        timeout = config_timeout,
                        rateLimit = config_rateLimit\<rparr>
      in n\<lparr>handlers := AList.update name (handler, apiConfig) (handlers n)\<rparr>)"

text \<open>
  What one call reads of the world besides its request: the request id drawn for it, the
  milliseconds elapsed when the latency is measured, the two timestamps, and how the
  heartbeat's fetch settles.
\<close>

record call_env =
  requestId :: string
  elapsed :: int
  heartbeat_now :: string
  response_now :: string
  heartbeat_fetch :: fetch

text \<open>The \<open>catch\<close> block of the \<open>/call\<close> route.\<close>

definition catch_block :: "call_env \<Rightarrow> thrown \<Rightarrow> node \<Rightarrow> node \<times> event list" where
  "catch_block env err n =
     (n\<lparr>errorCount := errorCount n + 1\<rparr>,
      [Sent (Response 500
         (JObj [(''error'', JStr (error_message ''Internal server error'' err)),
                (''requestId'', JStr (requestId env)),
                (''latency'', JNum (of_int (elapsed env)))]))])"

text \<open>\<open>!api || typeof api !== 'string'\<close> fails exactly on a string that is not empty.\<close>

fun api_name :: "jsval \<Rightarrow> string option" where
  "api_name (JStr s) = (if s = [] then None else Some s)"
| "api_name v = None"

text \<open>\<open>!params || typeof params !== 'object'\<close>\<close>

definition invalid_params :: "jsval \<Rightarrow> bool" where
  "invalid_params params = (\<not> truthy params \<or> \<not> typeof_object params)"

text \<open>The "Update stats" block of the route.\<close>

definition update_stats :: "int \<Rightarrow> rat \<Rightarrow> node \<Rightarrow> node" where
  "update_stats latency cost n =
     (let served = requestsServed (stats n) + 1;
          total = totalLatency n + latency
      in n\<lparr>stats := (stats n)\<lparr>requestsServed := served,
                                totalEarnings := totalEarnings (stats n) + cost,
                                averageLatency := of_int total / of_nat served,
                                errorRate := of_nat (errorCount n) / of_nat served\<rparr>,
            totalLatency := total\<rparr>)"

text \<open>The route after the handler has resolved: the stats, the awaited heartbeat, the
  response.\<close>

definition succeed ::
  "call_env \<Rightarrow> APIConfig \<Rightarrow> jsval \<Rightarrow> node \<Rightarrow> node \<times> event list" where
  "succeed env apiConfig result n =
     (let latency = elapsed env;
          n' = update_stats latency (price apiConfig) n;
          (posts, settled) =
             heartbeat (registryClient n')
               (health latency (requestsServed (stats n')) (errorCount n'))
               (heartbeat_now env) (heartbeat_fetch env)
      in (n',
          StatsWritten (stats n') # posts @
          (if settled
           then [Sent (Response 200
                   (JObj [(''data'', result),
                          (''requestId'', JStr (requestId env)),
                          (''latency'', JNum (of_int latency)),
                          (''cost'', JNum (price apiConfig)),
                          (''timestamp'', JStr (response_now env))]))]
           else [])))"

text \<open>\<open>apiConfig.timeout || 30000\<close>\<close>

definition call_timeout :: "APIConfig \<Rightarrow> rat" where
  "call_timeout apiConfig =
     (case timeout apiConfig of
        None \<Rightarrow> 30000
      | Some ms \<Rightarrow> if ms = 0 then 30000 else ms)"

text \<open>
  The \<open>POST /call\<close> route, on the body of the request and the payment the gate attached to
  it. Reading \<open>api\<close> and \<open>params\<close> of a body that is \<open>undefined\<close> or \<open>null\<close>, and reading
  \<open>amount\<close> of a payment that is not there, throw a TypeError inside the \<open>try\<close>.
\<close>

definition post_call ::
  "runtime \<Rightarrow> call_env \<Rightarrow> jsval \<Rightarrow> payment option \<Rightarrow> node \<Rightarrow> node \<times> event list" where
  "post_call rt env reqBody reqPayment n =
     (if nullish reqBody then catch_block env (Thrown (Some (typeErrorMessage rt))) n
      else
        let params = js_get reqBody ''params''
        in case api_name (js_get reqBody ''api'') of
             None \<Rightarrow>
               (n, [Sent (Response 400 (JObj [(''error'', JStr ''Missing or invalid API name'')]))])
           | Some api \<Rightarrow>
               if invalid_params params
               then (n, [Sent (Response 400
                            (JObj [(''error'', JStr ''Missing or invalid params'')]))])
               else
                 case map_of (handlers n) api of
                   None \<Rightarrow>
                     catch_block env (Thrown (Some (''API not found: '' @ api)))
                       (n\<lparr>errorCount := errorCount n + 1\<rparr>)
                 | Some (handler, apiConfig) \<Rightarrow>
                     (case reqPayment of
                        None \<Rightarrow> catch_block env (Thrown (Some (typeErrorMessage rt))) n
                      | Some pay \<Rightarrow>
                          if amount pay < price apiConfig
                          then (n, [Sent (Response 402
                                       (JObj [(''error'', JStr ''Insufficient payment''),
                                              (''required'', JNum (price apiConfig)),
                                              (''received'', JNum (amount pay))]))])
                          else
                            let t = call_timeout apiConfig;
                                (n', ev) =
                                   (case handler params t of
                                      HandlerResolved result \<Rightarrow> succeed env apiConfig result n
                                    | HandlerRejected err \<Rightarrow> catch_block env err n
                                    | TimerFired \<Rightarrow>
                                        catch_block env (Thrown (Some ''Handler timeout'')) n)
                            in (n', HandlerCalled api params t # ev)))"

text \<open>An inbound \<open>POST /call\<close>: the gate, then the route.\<close>

definition handle_call ::
  "runtime \<Rightarrow> ServerConfig \<Rightarrow> Connection \<Rightarrow> call_env \<Rightarrow> Request \<Rightarrow> node
     \<Rightarrow> node \<times> event list" where
  "handle_call rt cfg rpc env req n =
     (case paymentMiddleware rt (walletPubkey cfg) (chainList cfg) rpc req of
        (qs, Reply r) \<Rightarrow> (n, map ChainQuery qs @ [Sent r])
      | (qs, Next reqPayment) \<Rightarrow>
          let (n', ev) = post_call rt env (body req) reqPayment n
          in (n', map ChainQuery qs @ ev))"

text \<open>The decimal text of a number, as the template literal of the default URL renders
  the port.\<close>

fun string_of_nat :: "nat \<Rightarrow> string" where
  "string_of_nat n =
     (if n < 10 then [char_of (48 + n)]
      else string_of_nat (n div 10) @ [char_of (48 + n mod 10)])"

text \<open>How \<open>app.listen(port, callback)\<close> goes: it returns the server and the callback
  runs, or it throws.\<close>

datatype listening = ListenOk | ListenThrows thrown

definition registration :: "ServerConfig \<Rightarrow> node \<Rightarrow> (string \<times> jsval) list" where
  "registration cfg n =
     (let url = (case publicUrl cfg of
                   None \<Rightarrow> ''http://localhost:'' @ string_of_nat (port cfg)
                 | Some u \<Rightarrow>
                     if u = [] then ''http://localhost:'' @ string_of_nat (port cfg) else u)
      in [(''apis'', JArr (map (\<lambda>(name, h, c). JStr name) (handlers n))),
          (''url'', JStr url),
          (''prices'', JObj (map (\<lambda>(name, h, c). (name, JNum (price c))) (handlers n))),
          (''chains'', JArr (map JStr (chainList cfg)))])"

text \<open>\<open>start()\<close>: register with the registry, then listen. Whatever is thrown on the way
  rejects the promise with a \<open>ProviderNodeError\<close>.\<close>

definition start ::
  "ServerConfig \<Rightarrow> fetch \<Rightarrow> listening \<Rightarrow> node \<Rightarrow> node \<times> event list \<times> unit promise" where
  "start cfg f l n =
     (case register (registryClient n) (registration cfg n) f of
        (c, ev, Pending) \<Rightarrow> (n\<lparr>registryClient := c\<rparr>, ev, Pending)
      | (c, ev, RejectedWith m) \<Rightarrow>
          (n\<lparr>registryClient := c\<rparr>, ev, RejectedWith (''Failed to start server: '' @ m))
      | (c, ev, Fulfilled u) \<Rightarrow>
          (case l of
             ListenThrows err \<Rightarrow>
               (n\<lparr>registryClient := c\<rparr>, ev,
                RejectedWith (''Failed to start server: '' @ error_message ''Unknown error'' err))
           | ListenOk \<Rightarrow>
               (n\<lparr>registryClient := c, server := Some False\<rparr>,
                ev @ [Listen (port cfg)], Fulfilled ())))"

text \<open>\<open>stop()\<close>: unregister and close, when there is a server.\<close>

definition stop :: "fetch \<Rightarrow> node \<Rightarrow> node \<times> event list \<times> unit promise" where
  "stop f n =
     (case server n of
        None \<Rightarrow> (n, [], Fulfilled ())
      | Some srv \<Rightarrow>
          (case unregister (registryClient n) f of
             (ev, Fulfilled u) \<Rightarrow> (n\<lparr>server := Some True\<rparr>, ev @ [Close], Fulfilled ())
           | (ev, r) \<Rightarrow> (n, ev, r)))"

text \<open>\<open>getStats()\<close>, at \<open>now - startTime\<close> milliseconds of uptime.\<close>

definition getStats :: "int \<Rightarrow> node \<Rightarrow> ServerStats" where
  "getStats up n = (stats n)\<lparr>uptime := up\<rparr>"

section \<open>Fixtures\<close>

text \<open>A runtime that reads two amounts, takes any string for a public key, and words
  its TypeError as V8 does.\<close>

definition rt0 :: runtime where
  "rt0 =
     \<lparr>toNumber = (\<lambda>v. if v = JStr ''1500000'' then Some 1500000
                       else if v = JStr ''5'' then Some 5 else None),
      newPublicKey = (\<lambda>v. case v of JStr s \<Rightarrow> Inr s
                           | _ \<Rightarrow> Inl (Thrown (Some ''Invalid public key input''))),
      typeErrorMessage = ''Cannot read properties of undefined''\<rparr>"

definition transfer_ix :: "string \<Rightarrow> string \<Rightarrow> instruction" where
  "transfer_ix dest amt =
     ParsedInstruction TOKEN_PROGRAM_ID
       (JObj [(''type'', JStr ''transfer''),
              (''info'', JObj [(''destination'', JStr dest),
                               (''amount'', JStr amt),
                               (''authority'', JStr ''PayerWallet'')])])"

definition token_account :: "string \<Rightarrow> jsval" where
  "token_account own =
     JObj [(''data'', JObj [(''parsed'', JObj [(''info'', JObj [(''owner'', JStr own)])])])]"

text \<open>A chain with one transaction, \<open>sig1\<close>, of the given instructions, and two token
  accounts: \<open>AcctProvider\<close>, owned by \<open>ProviderWallet\<close>, and \<open>AcctOther\<close>, owned by
  \<open>OtherWallet\<close>.\<close>

definition chain_with :: "instruction list \<Rightarrow> Connection" where
  "chain_with ixs =
     \<lparr>getParsedTransaction =
        (\<lambda>s. if s = ''sig1'' then Inr (Some \<lparr>meta = JObj [(''err'', JNull)], instructions = ixs\<rparr>)
             else Inr None),
      getParsedAccountInfo =
        (\<lambda>k. if k = ''AcctProvider'' then Inr (token_account ''ProviderWallet'')
             else if k = ''AcctOther'' then Inr (token_account ''OtherWallet'')
             else Inr JNull)\<rparr>"

text \<open>A node with two handlers: \<open>echo\<close>, at the price 0.01, resolves with its
  parameters; \<open>boom\<close>, free, rejects.\<close>

definition cfg0 :: ServerConfig where
  "cfg0 =
     \<lparr>walletPubkey = ''ProviderWallet'', port = 9000, publicUrl = None,
      registry = ''http://localhost:3000/api'', chainList = [''solana''],
      defaultPrice = 0, logging = True\<rparr>"

definition echo :: APIHandler where
  "echo params t = HandlerResolved params"

definition boom :: APIHandler where
  "boom params t = HandlerRejected (Thrown (Some ''boom''))"

definition node0 :: node where
  "node0 =
     addAPI cfg0 ''boom'' boom None None None
       (addAPI cfg0 ''echo'' echo (Some (1 / 100)) None None (createProviderServer cfg0))"

definition call_body :: "string \<Rightarrow> jsval" where
  "call_body name = JObj [(''api'', JStr name), (''params'', JObj [])]"

definition paid :: "rat \<Rightarrow> payment" where
  "paid a = \<lparr>amount = a, from_addr = JStr ''PayerWallet'',
             signature = JStr ''sig1'', chain = ''solana''\<rparr>"

definition env0 :: "fetch \<Rightarrow> call_env" where
  "env0 f =
     \<lparr>requestId = ''req-1'', elapsed = 12,
      heartbeat_now = ''2025-01-01T00:00:00.012Z'',
      response_now = ''2025-01-01T00:00:00.015Z'',
      heartbeat_fetch = f\<rparr>"

text \<open>The node after one paid call of \<open>echo\<close>, and after a call of \<open>boom\<close> then.\<close>

definition node1 :: node where
  "node1 =
     fst (post_call rt0 (env0 (FetchResponse True (Inr ''ok''))) (call_body ''echo'')
            (Some (paid (1 / 100))) node0)"

definition node2 :: node where
  "node2 =
     fst (post_call rt0 (env0 (FetchResponse True (Inr ''ok''))) (call_body ''boom'')
            (Some (paid 0)) node1)"

section \<open>Properties of the payment gate\<close>

lemma find_transfer_None_iff:
  "find_transfer ixs = None \<longleftrightarrow>
     (\<forall>parsed. ParsedInstruction TOKEN_PROGRAM_ID parsed \<in> set ixs \<longrightarrow> \<not> is_transfer parsed)"
proof -
  have "set (List.map_filter token_instruction ixs) =
          {parsed. ParsedInstruction TOKEN_PROGRAM_ID parsed \<in> set ixs}"
  proof (induction ixs)
    case Nil
    show ?case by (simp add: List.map_filter_simps)
  next
    case (Cons ix ixs)
    then show ?case
      by (cases ix) (auto simp add: List.map_filter_simps)
  qed
  then show ?thesis
    by (auto simp add: find_transfer_def find_None_iff)
qed

lemma truthy_owner_data: "truthy (destinationOwner d) \<Longrightarrow> truthy d"
  by (cases d) (simp_all add: destinationOwner_def)

lemma verify_fetched:
  assumes "transactionSignature \<noteq> []"
    and "getParsedTransaction conn transactionSignature = Inr (Some tx)"
    and "\<not> (truthy (meta tx) \<and> truthy (js_get (meta tx) ''err''))"
  shows "verifySolanaOnChainPayment rt transactionSignature provider (Some conn) =
     (case find_transfer (instructions tx) of
        None \<Rightarrow> ([GetParsedTransaction transactionSignature],
                 Invalid ''No valid SPL Token transfer instruction found.'')
      | Some parsed \<Rightarrow>
          (GetParsedTransaction transactionSignature
             # fst (check_transfer rt transactionSignature provider conn parsed),
           snd (check_transfer rt transactionSignature provider conn parsed)))"
  using assms
  by (auto simp add: verifySolanaOnChainPayment_def split: option.splits prod.splits)

lemmas fixture_defs = find_transfer_def transfer_ix_def
      List.map_filter_simps is_transfer_def chain_with_def rt0_def token_account_def
      destinationOwner_def rawAmount_def

subsection \<open>C1: what the verifier answers on a fetched transaction\<close>

text \<open>
  C1, as amended. Let the transaction of the signature be fetched and not be recorded as
  failed on-chain. The verifier looks at one instruction only: the first parsed
  instruction of the token program whose type is \<open>transfer\<close> or \<open>transferChecked\<close>.
  When the destination of that instruction is a public key, the account fetched for it
  has the provider's wallet for owner, and the raw amount of the instruction reads as a
  number \<open>A\<close> that is not negative, \<open>verifySolanaOnChainPayment\<close> returns \<open>valid = true\<close>
  with the amount \<open>A / 10^6\<close> (the sender is the instruction's authority), after two
  queries. When the owner of that account is another wallet, it returns
  \<open>valid = false\<close> with "Payment was sent to an incorrect account.". When the transaction
  has no parsed transfer instruction of the token program, it returns \<open>valid = false\<close> with
  "No valid SPL Token transfer instruction found.", after the one query.
\<close>

theorem verify_transfer_outcomes:
  assumes sig: "transactionSignature \<noteq> []"
    and tx: "getParsedTransaction conn transactionSignature = Inr (Some tx)"
    and ok: "\<not> (truthy (meta tx) \<and> truthy (js_get (meta tx) ''err''))"
  shows
    "(\<forall>parsed key acct A.
        find_transfer (instructions tx) = Some parsed
        \<and> \<not> nullish (js_get parsed ''info'')
        \<and> newPublicKey rt (js_get (js_get parsed ''info'') ''destination'') = Inr key
        \<and> getParsedAccountInfo conn key = Inr acct
        \<and> destinationOwner (js_get acct ''data'') = JStr provider \<and> provider \<noteq> []
        \<and> toNumber rt (rawAmount (js_get parsed ''info'')) = Some A \<and> 0 \<le> A
        \<longrightarrow> verifySolanaOnChainPayment rt transactionSignature provider (Some conn) =
              ([GetParsedTransaction transactionSignature, GetParsedAccountInfo key],
               Valid (A / 10 ^ 6) (js_get (js_get parsed ''info'') ''authority'')
                 transactionSignature))
   \<and> (\<forall>parsed key acct.
        find_transfer (instructions tx) = Some parsed
        \<and> \<not> nullish (js_get parsed ''info'')
        \<and> newPublicKey rt (js_get (js_get parsed ''info'') ''destination'') = Inr key
        \<and> getParsedAccountInfo conn key = Inr acct
        \<and> truthy (destinationOwner (js_get acct ''data''))
        \<and> destinationOwner (js_get acct ''data'') \<noteq> JStr provider
        \<longrightarrow> verifySolanaOnChainPayment rt transactionSignature provider (Some conn) =
              ([GetParsedTransaction transactionSignature, GetParsedAccountInfo key],
               Invalid ''Payment was sent to an incorrect account.''))
   \<and> ((\<forall>parsed. ParsedInstruction TOKEN_PROGRAM_ID parsed \<in> set (instructions tx)
                  \<longrightarrow> \<not> is_transfer parsed)
        \<longrightarrow> verifySolanaOnChainPayment rt transactionSignature provider (Some conn) =
              ([GetParsedTransaction transactionSignature],
               Invalid ''No valid SPL Token transfer instruction found.''))"
proof (intro conjI allI impI)
  fix parsed key acct A
  assume h: "find_transfer (instructions tx) = Some parsed
        \<and> \<not> nullish (js_get parsed ''info'')
        \<and> newPublicKey rt (js_get (js_get parsed ''info'') ''destination'') = Inr key
        \<and> getParsedAccountInfo conn key = Inr acct
        \<and> destinationOwner (js_get acct ''data'') = JStr provider \<and> provider \<noteq> []
        \<and> toNumber rt (rawAmount (js_get parsed ''info'')) = Some A \<and> 0 \<le> A"
  then have "truthy (destinationOwner (js_get acct ''data''))" by simp
  then have "truthy (js_get acct ''data'')" by (rule truthy_owner_data)
  with h show "verifySolanaOnChainPayment rt transactionSignature provider (Some conn) =
              ([GetParsedTransaction transactionSignature, GetParsedAccountInfo key],
               Valid (A / 10 ^ 6) (js_get (js_get parsed ''info'') ''authority'')
                 transactionSignature)"
    by (simp add: verify_fetched [OF sig tx ok] check_transfer_def check_destination_def
        Let_def divide_less_0_iff)
next
  fix parsed key acct
  assume h: "find_transfer (instructions tx) = Some parsed
        \<and> \<not> nullish (js_get parsed ''info'')
        \<and> newPublicKey rt (js_get (js_get parsed ''info'') ''destination'') = Inr key
        \<and> getParsedAccountInfo conn key = Inr acct
        \<and> truthy (destinationOwner (js_get acct ''data''))
        \<and> destinationOwner (js_get acct ''data'') \<noteq> JStr provider"
  then have "truthy (js_get acct ''data'')" by (simp add: truthy_owner_data)
  with h show "verifySolanaOnChainPayment rt transactionSignature provider (Some conn) =
              ([GetParsedTransaction transactionSignature, GetParsedAccountInfo key],
               Invalid ''Payment was sent to an incorrect account.'')"
    by (simp add: verify_fetched [OF sig tx ok] check_transfer_def check_destination_def Let_def)
next
  assume "\<forall>parsed. ParsedInstruction TOKEN_PROGRAM_ID parsed \<in> set (instructions tx)
                  \<longrightarrow> \<not> is_transfer parsed"
  then have "find_transfer (instructions tx) = None"
    by (simp add: find_transfer_None_iff)
  then show "verifySolanaOnChainPayment rt transactionSignature provider (Some conn) =
              ([GetParsedTransaction transactionSignature],
               Invalid ''No valid SPL Token transfer instruction found.'')"
    by (simp add: verify_fetched [OF sig tx ok])
qed

theorem verify_transfer_outcomes_witness:
  "verifySolanaOnChainPayment rt0 ''sig1'' ''ProviderWallet''
     (Some (chain_with [transfer_ix ''AcctProvider'' ''1500000''])) =
       ([GetParsedTransaction ''sig1'', GetParsedAccountInfo ''AcctProvider''],
        Valid (3 / 2) (JStr ''PayerWallet'') ''sig1'')
   \<and> verifySolanaOnChainPayment rt0 ''sig1'' ''ProviderWallet''
     (Some (chain_with [transfer_ix ''AcctOther'' ''1500000''])) =
       ([GetParsedTransaction ''sig1'', GetParsedAccountInfo ''AcctOther''],
        Invalid ''Payment was sent to an incorrect account.'')
   \<and> verifySolanaOnChainPayment rt0 ''sig1'' ''ProviderWallet''
     (Some (chain_with [PartiallyDecoded TOKEN_PROGRAM_ID])) =
       ([GetParsedTransaction ''sig1''],
        Invalid ''No valid SPL Token transfer instruction found.'')"
proof -
  have sig: "''sig1'' \<noteq> []"
    by simp
  have fetched: "getParsedTransaction (chain_with ixs) ''sig1'' =
      Inr (Some \<lparr>meta = JObj [(''err'', JNull)], instructions = ixs\<rparr>)" for ixs
    by (simp add: chain_with_def)
  have ok: "\<not> (truthy (meta \<lparr>meta = JObj [(''err'', JNull)], instructions = ixs\<rparr>)
      \<and> truthy (js_get (meta \<lparr>meta = JObj [(''err'', JNull)], instructions = ixs\<rparr>) ''err''))"
    for ixs
    by simp
  have paid: "verifySolanaOnChainPayment rt0 ''sig1'' ''ProviderWallet''
     (Some (chain_with [transfer_ix ''AcctProvider'' ''1500000''])) =
       ([GetParsedTransaction ''sig1'', GetParsedAccountInfo ''AcctProvider''],
        Valid (3 / 2) (JStr ''PayerWallet'') ''sig1'')"
    using verify_transfer_outcomes [where rt = rt0 and provider = "''ProviderWallet''",
        OF sig fetched [of "[transfer_ix ''AcctProvider'' ''1500000'']"] ok,
        THEN conjunct1, rule_format,
        of "JObj [(''type'', JStr ''transfer''),
              (''info'', JObj [(''destination'', JStr ''AcctProvider''),
                               (''amount'', JStr ''1500000''),
                               (''authority'', JStr ''PayerWallet'')])]"
           "''AcctProvider''" "token_account ''ProviderWallet''" 1500000]
    by (simp add: fixture_defs)
  have other: "verifySolanaOnChainPayment rt0 ''sig1'' ''ProviderWallet''
     (Some (chain_with [transfer_ix ''AcctOther'' ''1500000''])) =
       ([GetParsedTransaction ''sig1'', GetParsedAccountInfo ''AcctOther''],
        Invalid ''Payment was sent to an incorrect account.'')"
    using verify_transfer_outcomes [where rt = rt0 and provider = "''ProviderWallet''",
        OF sig fetched [of "[transfer_ix ''AcctOther'' ''1500000'']"] ok,
        THEN conjunct2, THEN conjunct1, rule_format,
        of "JObj [(''type'', JStr ''transfer''),
              (''info'', JObj [(''destination'', JStr ''AcctOther''),
                               (''amount'', JStr ''1500000''),
                               (''authority'', JStr ''PayerWallet'')])]"
           "''AcctOther''" "token_account ''OtherWallet''"]
    by (simp add: fixture_defs)
  have none: "verifySolanaOnChainPayment rt0 ''sig1'' ''ProviderWallet''
     (Some (chain_with [PartiallyDecoded TOKEN_PROGRAM_ID])) =
       ([GetParsedTransaction ''sig1''],
        Invalid ''No valid SPL Token transfer instruction found.'')"
    using verify_transfer_outcomes [where rt = rt0 and provider = "''ProviderWallet''",
        OF sig fetched [of "[PartiallyDecoded TOKEN_PROGRAM_ID]"] ok,
        THEN conjunct2, THEN conjunct2]
    by simp
  from paid other none show ?thesis by simp
qed

text \<open>
  C1 as stated fails: a transaction that contains a transfer of 1500000 raw units to an
  account of the provider's wallet is rejected as sent to an incorrect account when an
  earlier transfer instruction of the same transaction pays another wallet. The account
  of the second transfer is never fetched.
\<close>

theorem second_transfer_counterexample:
  "transfer_ix ''AcctProvider'' ''1500000''
     \<in> set [transfer_ix ''AcctOther'' ''5'', transfer_ix ''AcctProvider'' ''1500000'']
   \<and> getParsedAccountInfo
        (chain_with [transfer_ix ''AcctOther'' ''5'', transfer_ix ''AcctProvider'' ''1500000''])
        ''AcctProvider'' = Inr (token_account ''ProviderWallet'')
   \<and> destinationOwner (js_get (token_account ''ProviderWallet'') ''data'') = JStr ''ProviderWallet''
   \<and> toNumber rt0 (JStr ''1500000'') = Some 1500000
   \<and> verifySolanaOnChainPayment rt0 ''sig1'' ''ProviderWallet''
        (Some (chain_with [transfer_ix ''AcctOther'' ''5'', transfer_ix ''AcctProvider'' ''1500000'']))
      = ([GetParsedTransaction ''sig1'', GetParsedAccountInfo ''AcctOther''],
         Invalid ''Payment was sent to an incorrect account.'')"
  by (simp add: verifySolanaOnChainPayment_def find_transfer_def transfer_ix_def
      List.map_filter_simps is_transfer_def chain_with_def rt0_def token_account_def
      destinationOwner_def check_transfer_def check_destination_def rawAmount_def)

subsection \<open>C2: free calls\<close>

text \<open>
  C2. For a request whose \<open>X-Payment\<close> header is absent, empty or the sentinel
  \<open>free-api-call\<close>, \<open>paymentMiddleware\<close> makes no chain query and lets the request through,
  whatever the runtime, the wallet, the supported chains, the connection and the
  \<open>X-Payment-Chain\<close> header are. On every path the gate applies to (any but \<open>/health\<close>,
  which bypasses the gate and gets no payment attached) the payment attached has the amount
  0 and the sender \<open>unknown\<close>.
\<close>

theorem free_call_passes_without_query:
  assumes "x_payment req = None \<or> x_payment req = Some []
           \<or> x_payment req = Some ''free-api-call''"
  shows "fst (paymentMiddleware rt wallet supportedChains rpc req) = []
       \<and> (path req \<noteq> ''/health'' \<longrightarrow>
            snd (paymentMiddleware rt wallet supportedChains rpc req) =
              Next (Some \<lparr>amount = 0, from_addr = JStr ''unknown'',
                           signature = header_value (x_payment req),
                           chain = payment_chain req\<rparr>))
       \<and> (path req = ''/health'' \<longrightarrow>
            snd (paymentMiddleware rt wallet supportedChains rpc req) = Next None)"
  using assms by (auto simp add: paymentMiddleware_def free_call_def header_value_def Let_def)

theorem free_call_passes_without_query_witness:
  "paymentMiddleware rt0 ''ProviderWallet'' [''solana''] (chain_with [])
     \<lparr>path = ''/call'', x_payment = Some ''free-api-call'',
      x_payment_chain = Some ''dogecoin'', body = JNull\<rparr>
   = ([], Next (Some \<lparr>amount = 0, from_addr = JStr ''unknown'',
                       signature = JStr ''free-api-call'', chain = ''dogecoin''\<rparr>))"
  using free_call_passes_without_query
    [of "\<lparr>path = ''/call'', x_payment = Some ''free-api-call'',
          x_payment_chain = Some ''dogecoin'', body = JNull\<rparr>"
        rt0 "''ProviderWallet''" "[''solana'']" "chain_with []"]
  by (simp add: prod_eq_iff header_value_def payment_chain_def)

section \<open>Properties of the dispatcher\<close>

lemma api_name_object:
  "api_name (js_get reqBody ''api'') = Some api \<Longrightarrow> \<not> nullish reqBody"
  by (cases reqBody) simp_all

lemmas node0_defs = node0_def addAPI_def createProviderServer_def new_RegistryClient_def
  cfg0_def echo_def boom_def call_body_def paid_def env0_def invalid_params_def

lemmas route_defs = post_call_def catch_block_def succeed_def update_stats_def
  heartbeat_def health_def call_timeout_def

lemma post_call_registryClient:
  "registryClient (fst (post_call rt env reqBody reqPayment n)) = registryClient n"
  by (simp add: post_call_def catch_block_def succeed_def update_stats_def heartbeat_def
      Let_def split: option.splits race.splits prod.splits)

subsection \<open>C3: the price check\<close>

text \<open>
  C3. Let a call pass the shape check (its body names an API by a string that is not
  empty and has parameters of type object), let the API be registered, and let the gate
  have attached a payment. If the amount paid is less than the price, \<open>post_call\<close> sends
  one response, 402 "Insufficient payment" with \<open>required\<close> (the price) and \<open>received\<close> (the
  amount paid); the node's state is unchanged and the handler is not called. If the amount
  paid is the price or more, the handler is called, with the parameters of the body.
\<close>

theorem price_check:
  assumes named: "api_name (js_get reqBody ''api'') = Some api"
    and shaped: "\<not> invalid_params (js_get reqBody ''params'')"
    and registered: "map_of (handlers n) api = Some (handler, apiConfig)"
  shows "(amount pay < price apiConfig \<longrightarrow>
            post_call rt env reqBody (Some pay) n =
              (n, [Sent (Response 402
                     (JObj [(''error'', JStr ''Insufficient payment''),
                            (''required'', JNum (price apiConfig)),
                            (''received'', JNum (amount pay))]))]))
       \<and> (price apiConfig \<le> amount pay \<longrightarrow>
            (\<exists>n' ev. post_call rt env reqBody (Some pay) n =
               (n', HandlerCalled api (js_get reqBody ''params'') (call_timeout apiConfig) # ev)))"
  using assms api_name_object [OF named]
  by (auto simp add: post_call_def Let_def split: prod.splits)

theorem price_check_witness:
  "post_call rt0 (env0 (FetchResponse True (Inr ''ok''))) (call_body ''echo'')
     (Some (paid 0)) node0 =
     (node0, [Sent (Response 402
                (JObj [(''error'', JStr ''Insufficient payment''),
                       (''required'', JNum (1 / 100)),
                       (''received'', JNum 0)]))])
   \<and> (\<exists>n' ev. post_call rt0 (env0 (FetchResponse True (Inr ''ok''))) (call_body ''echo'')
         (Some (paid (1 / 100))) node0 =
         (n', HandlerCalled ''echo'' (JObj []) 30000 # ev))"
  using price_check [of "call_body ''echo''" "''echo''" node0 echo
      "\<lparr>price = 1 / 100, timeout = None, rateLimit = None\<rparr>" "paid 0"
      rt0 "env0 (FetchResponse True (Inr ''ok''))"]
    price_check [of "call_body ''echo''" "''echo''" node0 echo
      "\<lparr>price = 1 / 100, timeout = None, rateLimit = None\<rparr>" "paid (1 / 100)"
      rt0 "env0 (FetchResponse True (Inr ''ok''))"]
  by (simp add: node0_defs call_timeout_def)

subsection \<open>C4: an unknown API is counted twice\<close>

text \<open>
  C4 fails on the code. The route increments \<open>errorCount\<close> before it throws
  \<open>APINotFoundError\<close>, and the \<open>catch\<close> block that receives the error increments it again:
  one call of an API that is not registered, on a node whose error count is 0, leaves the
  count at 2. The response is the 500 "API not found: missing".
\<close>

theorem not_found_counted_twice:
  "post_call rt0 (env0 (FetchResponse True (Inr ''ok''))) (call_body ''missing'')
     (Some (paid 0)) node0 =
     (node0\<lparr>errorCount := 2\<rparr>,
      [Sent (Response 500
         (JObj [(''error'', JStr ''API not found: missing''),
                (''requestId'', JStr ''req-1''),
                (''latency'', JNum 12)]))])
   \<and> errorCount node0 = 0"
  by (simp add: node0_defs route_defs)

subsection \<open>C5: stats, heartbeat, response\<close>

text \<open>
  C5, as amended. On a successful call (shape valid, API registered, payment sufficient,
  handler resolved first) the effects are, in this order: the handler is called, the
  stats are written, the heartbeat is posted to the registry carrying the latency and the
  counters as just written, and then the response 200 is sent. The heartbeat is awaited:
  the response is sent once the heartbeat's request has settled, whether it succeeded or
  threw, and is not sent while it has not.
\<close>

theorem success_effect_order:
  assumes named: "api_name (js_get reqBody ''api'') = Some api"
    and shaped: "\<not> invalid_params (js_get reqBody ''params'')"
    and registered: "map_of (handlers n) api = Some (handler, apiConfig)"
    and enough: "price apiConfig \<le> amount pay"
    and resolved: "handler (js_get reqBody ''params'') (call_timeout apiConfig) =
                     HandlerResolved result"
  shows "post_call rt env reqBody (Some pay) n =
     (update_stats (elapsed env) (price apiConfig) n,
      [HandlerCalled api (js_get reqBody ''params'') (call_timeout apiConfig),
       StatsWritten (stats (update_stats (elapsed env) (price apiConfig) n)),
       RegistryPost (registryUrl (registryClient n) @ ''/heartbeat'')
         (JObj ((''providerId'', JStr (providerId (registryClient n)))
                # health (elapsed env) (requestsServed (stats n) + 1) (errorCount n)
                @ [(''timestamp'', JStr (heartbeat_now env))]))]
      @ (if heartbeat_fetch env = FetchPending then []
         else [Sent (Response 200
                 (JObj [(''data'', result),
                        (''requestId'', JStr (requestId env)),
                        (''latency'', JNum (of_int (elapsed env))),
                        (''cost'', JNum (price apiConfig)),
                        (''timestamp'', JStr (response_now env))]))]))"
  using assms api_name_object [OF named]
  by (simp add: post_call_def succeed_def heartbeat_def update_stats_def Let_def)

theorem success_effect_order_witness:
  "post_call rt0 (env0 (FetchThrows ''FetchError: connect ECONNREFUSED''))
     (call_body ''echo'') (Some (paid (1 / 100))) node0 =
     (update_stats 12 (1 / 100) node0,
      [HandlerCalled ''echo'' (JObj []) 30000,
       StatsWritten \<lparr>uptime = 0, requestsServed = 1, totalEarnings = 1 / 100,
                      averageLatency = 12, errorRate = 0\<rparr>,
       RegistryPost ''http://localhost:3000/api/heartbeat''
         (JObj [(''providerId'', JStr ''ProviderWallet''), (''latency'', JNum 12),
                (''requestsServed'', JNum 1), (''errors'', JNum 0),
                (''timestamp'', JStr ''2025-01-01T00:00:00.012Z'')]),
       Sent (Response 200
         (JObj [(''data'', JObj []), (''requestId'', JStr ''req-1''),
                (''latency'', JNum 12), (''cost'', JNum (1 / 100)),
                (''timestamp'', JStr ''2025-01-01T00:00:00.015Z'')]))])"
  using success_effect_order [of "call_body ''echo''" "''echo''" node0 echo
      "\<lparr>price = 1 / 100, timeout = None, rateLimit = None\<rparr>" "paid (1 / 100)"
      "JObj []" rt0 "env0 (FetchThrows ''FetchError: connect ECONNREFUSED'')"]
  by (simp add: node0_defs call_timeout_def update_stats_def health_def)

text \<open>
  C5 as stated fails: when the registry never answers the heartbeat, a successful call
  ends with the heartbeat posted and no response sent.
\<close>

theorem pending_heartbeat_counterexample:
  "snd (post_call rt0 (env0 FetchPending) (call_body ''echo'') (Some (paid (1 / 100))) node0) =
     [HandlerCalled ''echo'' (JObj []) 30000,
      StatsWritten \<lparr>uptime = 0, requestsServed = 1, totalEarnings = 1 / 100,
                     averageLatency = 12, errorRate = 0\<rparr>,
      RegistryPost ''http://localhost:3000/api/heartbeat''
        (JObj [(''providerId'', JStr ''ProviderWallet''), (''latency'', JNum 12),
               (''requestsServed'', JNum 1), (''errors'', JNum 0),
               (''timestamp'', JStr ''2025-01-01T00:00:00.012Z'')])]"
  by (simp add: node0_defs route_defs)

subsection \<open>C6: the error rate after a failure\<close>

text \<open>
  C6 fails on the code. \<open>errorRate\<close> is written on the success path only. After one
  successful call and one failed call the error count is 1 and the requests served are 1,
  but the stats still hold the error rate 0 written by the successful call.
\<close>

theorem stale_error_rate:
  "errorCount node2 = 1 \<and> requestsServed (stats node2) = 1 \<and> errorRate (stats node2) = 0"
  by (simp add: node2_def node1_def node0_defs route_defs)

subsection \<open>C7: what a failure response carries\<close>

lemma post_call_responses:
  assumes "Sent (Response st b) \<in> set (snd (post_call rt env reqBody reqPayment n))"
  shows "(st = 500 \<longrightarrow> js_get b ''requestId'' = JStr (requestId env)
                        \<and> js_get b ''latency'' = JNum (of_int (elapsed env)))
       \<and> (st = 400 \<or> st = 402 \<longrightarrow> js_get b ''requestId'' = JUndefined
                        \<and> js_get b ''latency'' = JUndefined)"
  using assms
  by (auto simp add: post_call_def catch_block_def succeed_def heartbeat_def Let_def
      split: option.splits race.splits prod.splits if_splits)

lemma gate_responses:
  assumes "paymentMiddleware rt w cs rpc req = (qs, Reply (Response st b))"
  shows "(st = 400 \<or> st = 402) \<and> js_get b ''requestId'' = JUndefined
         \<and> js_get b ''latency'' = JUndefined"
  using assms
  by (auto simp add: paymentMiddleware_def Let_def
      split: option.splits prod.splits if_splits PaymentResult.splits)

text \<open>
  C7, as amended. Of the responses to a \<open>POST /call\<close>, those of status 500 (unknown API,
  handler failure, handler timeout, a TypeError in the route) carry the call's
  \<open>requestId\<close> and the elapsed \<open>latency\<close>; those of status 400 and 402, whether sent by the
  gate or by the route, carry neither.
\<close>

theorem failure_response_fields:
  assumes "Sent (Response st b) \<in> set (snd (handle_call rt cfg rpc env req n))"
  shows "(st = 500 \<longrightarrow> js_get b ''requestId'' = JStr (requestId env)
                        \<and> js_get b ''latency'' = JNum (of_int (elapsed env)))
       \<and> (st = 400 \<or> st = 402 \<longrightarrow> js_get b ''requestId'' = JUndefined
                        \<and> js_get b ''latency'' = JUndefined)"
proof (cases "paymentMiddleware rt (walletPubkey cfg) (chainList cfg) rpc req")
  case (Pair qs g)
  show ?thesis
  proof (cases g)
    case (Next reqPayment)
    with Pair assms
    have "Sent (Response st b) \<in> set (snd (post_call rt env (body req) reqPayment n))"
      by (auto simp add: handle_call_def split: prod.splits)
    then show ?thesis
      by (rule post_call_responses)
  next
    case (Reply r)
    with Pair assms have "r = Response st b"
      by (auto simp add: handle_call_def)
    with Pair Reply show ?thesis
      using gate_responses [of rt "walletPubkey cfg" "chainList cfg" rpc req qs st b]
      by auto
  qed
qed

theorem failure_response_fields_witness:
  "Sent (Response 500
     (JObj [(''error'', JStr ''API not found: missing''),
            (''requestId'', JStr ''req-1''),
            (''latency'', JNum 12)]))
     \<in> set (snd (handle_call rt0 cfg0 (chain_with []) (env0 FetchPending)
                 \<lparr>path = ''/call'', x_payment = Some ''free-api-call'',
                    x_payment_chain = None, body = call_body ''missing''\<rparr> node0))
   \<and> js_get (JObj [(''error'', JStr ''API not found: missing''),
            (''requestId'', JStr ''req-1''),
            (''latency'', JNum 12)]) ''requestId'' = JStr (requestId (env0 FetchPending))
   \<and> js_get (JObj [(''error'', JStr ''API not found: missing''),
            (''requestId'', JStr ''req-1''),
            (''latency'', JNum 12)]) ''latency'' = JNum (of_int (elapsed (env0 FetchPending)))"
proof -
  have sent: "Sent (Response 500
     (JObj [(''error'', JStr ''API not found: missing''),
            (''requestId'', JStr ''req-1''),
            (''latency'', JNum 12)]))
     \<in> set (snd (handle_call rt0 cfg0 (chain_with []) (env0 FetchPending)
                 \<lparr>path = ''/call'', x_payment = Some ''free-api-call'',
                    x_payment_chain = None, body = call_body ''missing''\<rparr> node0))"
    by (simp add: handle_call_def paymentMiddleware_def free_call_def header_value_def
        payment_chain_def node0_defs route_defs)
  from failure_response_fields [OF sent] sent show ?thesis
    by simp
qed

text \<open>
  C7 as stated fails: the route has drawn the request id when it answers 400 to a body
  with no API name, and the response is \<open>{error}\<close> alone.
\<close>

theorem bad_request_counterexample:
  "handle_call rt0 cfg0 (chain_with []) (env0 (FetchResponse True (Inr ''ok'')))
     \<lparr>path = ''/call'', x_payment = Some ''free-api-call'',
      x_payment_chain = None, body = JObj [(''params'', JObj [])]\<rparr> node0 =
     (node0, [Sent (Response 400 (JObj [(''error'', JStr ''Missing or invalid API name'')]))])
   \<and> js_get (JObj [(''error'', JStr ''Missing or invalid API name'')]) ''requestId''
       = JUndefined"
  by (simp add: handle_call_def paymentMiddleware_def free_call_def header_value_def
      payment_chain_def node0_defs route_defs)

subsection \<open>Further properties of the route\<close>

text \<open>
  Any call that names an API that is not registered, once past the shape check, adds 2 to
  the error count and changes nothing else of the node; the response is the 500
  "API not found".
\<close>

theorem unknown_api_error_count:
  assumes named: "api_name (js_get reqBody ''api'') = Some api"
    and shaped: "\<not> invalid_params (js_get reqBody ''params'')"
    and unknown: "map_of (handlers n) api = None"
  shows "post_call rt env reqBody reqPayment n =
     (n\<lparr>errorCount := errorCount n + 2\<rparr>,
      [Sent (Response 500
         (JObj [(''error'', JStr (''API not found: '' @ api)),
                (''requestId'', JStr (requestId env)),
                (''latency'', JNum (of_int (elapsed env)))]))])"
  using assms api_name_object [OF named]
  by (simp add: post_call_def catch_block_def)

theorem unknown_api_error_count_witness:
  "errorCount (fst (post_call rt0 (env0 FetchPending) (call_body ''missing'') None node0)) = 2"
  using unknown_api_error_count [of "call_body ''missing''" "''missing''" node0
      rt0 "env0 FetchPending" None]
  by (simp add: node0_defs)

text \<open>
  A successful call adds 1 to the requests served, the price to the earnings and the
  elapsed time to the total latency, leaves the error count, and leaves the two ratios of
  the stats equal to the quotients of the counters they are derived from.
\<close>

theorem success_keeps_ratios:
  assumes named: "api_name (js_get reqBody ''api'') = Some api"
    and shaped: "\<not> invalid_params (js_get reqBody ''params'')"
    and registered: "map_of (handlers n) api = Some (handler, apiConfig)"
    and enough: "price apiConfig \<le> amount pay"
    and resolved: "handler (js_get reqBody ''params'') (call_timeout apiConfig) =
                     HandlerResolved result"
    and n': "n' = fst (post_call rt env reqBody (Some pay) n)"
  shows "requestsServed (stats n') = requestsServed (stats n) + 1
       \<and> totalEarnings (stats n') = totalEarnings (stats n) + price apiConfig
       \<and> totalLatency n' = totalLatency n + elapsed env
       \<and> errorCount n' = errorCount n
       \<and> averageLatency (stats n') = of_int (totalLatency n') / of_nat (requestsServed (stats n'))
       \<and> errorRate (stats n') = of_nat (errorCount n') / of_nat (requestsServed (stats n'))"
  using assms api_name_object [OF named]
  by (simp add: post_call_def succeed_def heartbeat_def update_stats_def Let_def)

theorem success_keeps_ratios_witness:
  "requestsServed (stats node1) = 1 \<and> totalEarnings (stats node1) = 1 / 100
   \<and> totalLatency node1 = 12 \<and> averageLatency (stats node1) = 12
   \<and> errorRate (stats node1) = 0"
  using success_keeps_ratios [of "call_body ''echo''" "''echo''" node0 echo
      "\<lparr>price = 1 / 100, timeout = None, rateLimit = None\<rparr>" "paid (1 / 100)"
      "JObj []" node1 rt0 "env0 (FetchResponse True (Inr ''ok''))"]
  by (simp add: node1_def node0_defs call_timeout_def)

text \<open>
  A call whose handler rejects, or whose timer fires first, adds 1 to the error count and
  changes nothing else of the node: neither the requests served nor the earnings. The
  response is a 500 with the message of the error, "Handler timeout" for the timer.
\<close>

theorem handler_failure_counted_once:
  assumes named: "api_name (js_get reqBody ''api'') = Some api"
    and shaped: "\<not> invalid_params (js_get reqBody ''params'')"
    and registered: "map_of (handlers n) api = Some (handler, apiConfig)"
    and enough: "price apiConfig \<le> amount pay"
  shows "(handler (js_get reqBody ''params'') (call_timeout apiConfig) = TimerFired \<longrightarrow>
           post_call rt env reqBody (Some pay) n =
             (n\<lparr>errorCount := errorCount n + 1\<rparr>,
              [HandlerCalled api (js_get reqBody ''params'') (call_timeout apiConfig),
               Sent (Response 500
                 (JObj [(''error'', JStr ''Handler timeout''),
                        (''requestId'', JStr (requestId env)),
                        (''latency'', JNum (of_int (elapsed env)))]))]))
       \<and> (\<forall>err. handler (js_get reqBody ''params'') (call_timeout apiConfig) =
                  HandlerRejected err \<longrightarrow>
           post_call rt env reqBody (Some pay) n =
             (n\<lparr>errorCount := errorCount n + 1\<rparr>,
              [HandlerCalled api (js_get reqBody ''params'') (call_timeout apiConfig),
               Sent (Response 500
                 (JObj [(''error'', JStr (error_message ''Internal server error'' err)),
                        (''requestId'', JStr (requestId env)),
                        (''latency'', JNum (of_int (elapsed env)))]))]))"
  using assms api_name_object [OF named]
  by (simp add: post_call_def catch_block_def Let_def)

theorem handler_failure_counted_once_witness:
  "post_call rt0 (env0 FetchPending) (call_body ''boom'') (Some (paid 0)) node0 =
     (node0\<lparr>errorCount := 1\<rparr>,
      [HandlerCalled ''boom'' (JObj []) 30000,
       Sent (Response 500
         (JObj [(''error'', JStr ''boom''),
                (''requestId'', JStr ''req-1''),
                (''latency'', JNum 12)]))])"
  using handler_failure_counted_once [of "call_body ''boom''" "''boom''" node0 boom
      "\<lparr>price = 0, timeout = None, rateLimit = None\<rparr>" "paid 0" rt0 "env0 FetchPending",
      THEN conjunct2, rule_format, of "Thrown (Some ''boom'')"]
  by (simp add: node0_defs call_timeout_def)

text \<open>
  \<open>addAPI\<close> under a name replaces the registration of that name and leaves the others:
  the last registration wins.
\<close>

theorem addAPI_last_wins:
  "map_of (handlers (addAPI cfg name handler p t r n)) name =
     Some (handler, \<lparr>price = (case p of None \<Rightarrow> defaultPrice cfg | Some c \<Rightarrow> c),
                     timeout = t, rateLimit = r\<rparr>)
   \<and> (\<forall>other. other \<noteq> name \<longrightarrow>
         map_of (handlers (addAPI cfg name handler p t r n)) other = map_of (handlers n) other)"
  by (simp add: addAPI_def update_conv')

theorem addAPI_last_wins_witness:
  "map_of (handlers (addAPI cfg0 ''echo'' boom (Some 5) None None node0)) ''echo'' =
     Some (boom, \<lparr>price = 5, timeout = None, rateLimit = None\<rparr>)
   \<and> map_of (handlers (addAPI cfg0 ''echo'' boom (Some 5) None None node0)) ''boom'' =
     Some (boom, \<lparr>price = 0, timeout = None, rateLimit = None\<rparr>)"
  using addAPI_last_wins [of cfg0 "''echo''" boom "Some 5" None None node0]
  by (simp add: node0_defs)

section \<open>Properties of the lifecycle\<close>

lemma register_failed:
  assumes "\<forall>answer. f \<noteq> FetchResponse True answer"
  shows "\<exists>post r. register c data f = (c, [RegistryPost (registryUrl c @ ''/register'') post], r)
           \<and> r \<noteq> Fulfilled ()
           \<and> (f \<noteq> FetchPending \<longrightarrow> (\<exists>m. r = RejectedWith (''Failed to register: '' @ m)))"
proof (cases f)
  case FetchPending
  then show ?thesis by (simp add: register_def)
next
  case (FetchThrows e)
  then show ?thesis by (simp add: register_def)
next
  case (FetchResponse ok answer)
  with assms have "\<not> ok" by auto
  with FetchResponse show ?thesis
    by (cases answer) (simp_all add: register_def)
qed

lemma register_ok:
  "register c data (FetchResponse True answer) =
     (c\<lparr>heartbeatInterval := Some 60000\<rparr>,
      [RegistryPost (registryUrl c @ ''/register'')
         (JObj ((''providerId'', JStr (providerId c)) # data)),
       SetInterval 60000],
      Fulfilled ())"
  by (simp add: register_def startHeartbeat_def)

subsection \<open>C8: no registration, no server\<close>

text \<open>
  C8. When the register request does not come back with a success response (it throws,
  it is answered with a status that is not ok, or it never settles), \<open>start\<close> leaves the
  node as it was, never listens and sets no timer, and does not fulfil; when the request
  threw or was answered not ok, it rejects with "Failed to start server: Failed to
  register: ...". When the registry answers ok, the heartbeat timer is set, after the
  register request and before the server listens.
\<close>

theorem start_needs_registration:
  "((\<forall>answer. f \<noteq> FetchResponse True answer) \<longrightarrow>
      (\<exists>ev r. start cfg f l n = (n, ev, r)
         \<and> (\<forall>p. Listen p \<notin> set ev) \<and> (\<forall>t. SetInterval t \<notin> set ev)
         \<and> r \<noteq> Fulfilled ()
         \<and> (f \<noteq> FetchPending \<longrightarrow>
              (\<exists>m. r = RejectedWith (''Failed to start server: Failed to register: '' @ m)))))
   \<and> (\<forall>answer. f = FetchResponse True answer \<longrightarrow>
        (\<exists>n' r.
           start cfg f l n =
             (n', [RegistryPost (registryUrl (registryClient n) @ ''/register'')
                     (JObj ((''providerId'', JStr (providerId (registryClient n)))
                            # registration cfg n)),
                   SetInterval 60000]
                  @ (if l = ListenOk then [Listen (port cfg)] else []), r)
           \<and> heartbeatInterval (registryClient n') = Some 60000
           \<and> (r = Fulfilled () \<longleftrightarrow> l = ListenOk)))"
proof (intro conjI impI allI)
  assume failed: "\<forall>answer. f \<noteq> FetchResponse True answer"
  from register_failed [OF failed, of "registryClient n" "registration cfg n"]
  obtain post r where
    reg: "register (registryClient n) (registration cfg n) f =
            (registryClient n, [RegistryPost (registryUrl (registryClient n) @ ''/register'') post], r)"
    and r: "r \<noteq> Fulfilled ()"
    and rej: "f \<noteq> FetchPending \<longrightarrow> (\<exists>m. r = RejectedWith (''Failed to register: '' @ m))"
    by blast
  show "\<exists>ev r. start cfg f l n = (n, ev, r)
         \<and> (\<forall>p. Listen p \<notin> set ev) \<and> (\<forall>t. SetInterval t \<notin> set ev)
         \<and> r \<noteq> Fulfilled ()
         \<and> (f \<noteq> FetchPending \<longrightarrow>
              (\<exists>m. r = RejectedWith (''Failed to start server: Failed to register: '' @ m)))"
  proof (cases r)
    case Pending
    with reg rej show ?thesis
      by (auto simp add: start_def)
  next
    case (Fulfilled u)
    with r show ?thesis by simp
  next
    case (RejectedWith m)
    with reg rej show ?thesis
      by (auto simp add: start_def)
  qed
next
  fix answer
  assume "f = FetchResponse True answer"
  then show "\<exists>n' r.
           start cfg f l n =
             (n', [RegistryPost (registryUrl (registryClient n) @ ''/register'')
                     (JObj ((''providerId'', JStr (providerId (registryClient n)))
                            # registration cfg n)),
                   SetInterval 60000]
                  @ (if l = ListenOk then [Listen (port cfg)] else []), r)
           \<and> heartbeatInterval (registryClient n') = Some 60000
           \<and> (r = Fulfilled () \<longleftrightarrow> l = ListenOk)"
    by (cases l) (simp_all add: start_def register_ok)
qed

theorem start_needs_registration_witness:
  "(\<exists>ev m. start cfg0 (FetchResponse False (Inr ''registry down'')) ListenOk node0 =
        (node0, ev, RejectedWith (''Failed to start server: Failed to register: '' @ m))
      \<and> (\<forall>p. Listen p \<notin> set ev) \<and> (\<forall>t. SetInterval t \<notin> set ev))
   \<and> (\<exists>n'. start cfg0 (FetchResponse True (Inr ''ok'')) ListenOk node0 =
        (n', [RegistryPost ''http://localhost:3000/api/register''
                (JObj ((''providerId'', JStr ''ProviderWallet'') # registration cfg0 node0)),
              SetInterval 60000, Listen 9000], Fulfilled ())
      \<and> heartbeatInterval (registryClient n') = Some 60000)"
proof -
  have down: "\<forall>answer. FetchResponse False (Inr ''registry down'') \<noteq> FetchResponse True answer"
    by simp
  from start_needs_registration [of "FetchResponse False (Inr ''registry down'')"
      cfg0 ListenOk node0, THEN conjunct1, THEN mp, OF down]
  have first: "\<exists>ev m. start cfg0 (FetchResponse False (Inr ''registry down'')) ListenOk node0 =
        (node0, ev, RejectedWith (''Failed to start server: Failed to register: '' @ m))
      \<and> (\<forall>p. Listen p \<notin> set ev) \<and> (\<forall>t. SetInterval t \<notin> set ev)"
    by auto
  from start_needs_registration [of "FetchResponse True (Inr ''ok'')"
      cfg0 ListenOk node0, THEN conjunct2, rule_format, of "Inr ''ok''"]
  have second: "\<exists>n'. start cfg0 (FetchResponse True (Inr ''ok'')) ListenOk node0 =
        (n', [RegistryPost ''http://localhost:3000/api/register''
                (JObj ((''providerId'', JStr ''ProviderWallet'') # registration cfg0 node0)),
              SetInterval 60000, Listen 9000], Fulfilled ())
      \<and> heartbeatInterval (registryClient n') = Some 60000"
    by (auto simp add: node0_def addAPI_def createProviderServer_def new_RegistryClient_def
        cfg0_def)
  from first second show ?thesis
    by (rule conjI)
qed

subsection \<open>C9: the periodic heartbeat\<close>

text \<open>
  C9, as amended. The timer is set to 60000 milliseconds, and at every tick, whatever
  calls the node has served, the heartbeat sent is the zeroed snapshot: latency 0,
  requestsServed 0, errors 0.
\<close>

theorem tick_sends_zeros:
  "heartbeat_tick (registryClient (fst (post_call rt env reqBody reqPayment n))) now f =
     [RegistryPost (registryUrl (registryClient n) @ ''/heartbeat'')
        (JObj [(''providerId'', JStr (providerId (registryClient n))),
               (''latency'', JNum 0),
               (''requestsServed'', JNum 0),
               (''errors'', JNum 0),
               (''timestamp'', JStr now)])]
   \<and> snd (startHeartbeat (registryClient n)) = [SetInterval 60000]"
  by (simp add: post_call_registryClient heartbeat_tick_def heartbeat_def health_def
      startHeartbeat_def)

text \<open>
  C9 as stated fails: after a call has been served (one request, 12 milliseconds), the
  tick still reports no request and no latency.
\<close>

theorem tick_after_traffic_counterexample:
  "requestsServed (stats node1) = 1
   \<and> totalLatency node1 = 12
   \<and> heartbeat_tick (registryClient node1) ''2025-01-01T00:01:00.000Z''
        (FetchResponse True (Inr ''ok'')) =
       [RegistryPost ''http://localhost:3000/api/heartbeat''
          (JObj [(''providerId'', JStr ''ProviderWallet''),
                 (''latency'', JNum 0),
                 (''requestsServed'', JNum 0),
                 (''errors'', JNum 0),
                 (''timestamp'', JStr ''2025-01-01T00:01:00.000Z'')])]"
  by (simp add: node1_def node0_defs route_defs heartbeat_tick_def Let_def)

subsection \<open>C10: stop without a server\<close>

text \<open>
  C10. While there is no server instance, \<open>stop\<close> fulfils and does nothing: no event (no
  unregister request, no timer cleared, no server closed) and the node, with its stats
  and its registry client, unchanged.
\<close>

theorem stop_without_server:
  assumes "server n = None"
  shows "stop f n = (n, [], Fulfilled ())"
  using assms by (simp add: stop_def)

theorem stop_without_server_witness:
  "server node0 = None \<and> stop FetchPending node0 = (node0, [], Fulfilled ())"
proof -
  have none: "server node0 = None"
    by (simp add: node0_defs)
  from stop_without_server [OF none, of FetchPending] none show ?thesis
    by simp
qed

end
